theory Spec2Isabelle
  imports Main "HOL-Library.Word"
begin

unbundle bit_operations_syntax

section \<open>Python values used by checksum.py\<close>

text \<open>
  \<^verbatim>\<open>bytes\<close> is a list of octets.  A Python \<^verbatim>\<open>str\<close> is modelled by \<^typ>\<open>string\<close>; a
  character stands for the code point of the same number (0 to 255).  Python's \<^verbatim>\<open>int\<close> is
  \<^typ>\<open>int\<close>.
\<close>

type_synonym bytes = "8 word list"

definition newline :: string where
  "newline = [CHR 0x0A]"

definition hex_digits :: string where
  "hex_digits = ''0123456789abcdef''"

definition hex_digit :: "nat \<Rightarrow> char" where
  "hex_digit n = hex_digits ! (n mod 16)"

text \<open>
  \<^verbatim>\<open>repr\<close> of a \<^verbatim>\<open>str\<close>, which \<^verbatim>\<open>{target_hashsum!r}\<close> calls: the string is put between
  single quotes, or between double quotes when it holds a single quote and no double quote;
  the chosen quote and the backslash are escaped, tab, line feed and carriage return are
  written \<^verbatim>\<open>\t\<close>, \<^verbatim>\<open>\n\<close>, \<^verbatim>\<open>\r\<close>, and every other code point that is not printable
  is written \<^verbatim>\<open>\xhh\<close>.
\<close>

definition py_printable :: "char \<Rightarrow> bool" where
  "py_printable c =
     (let n = of_char c :: nat
      in 0x20 \<le> n \<and> n < 0x7F \<or> 0xA0 < n \<and> n \<noteq> 0xAD)"

definition repr_char :: "char \<Rightarrow> char \<Rightarrow> string" where
  "repr_char quote c =
     (if c = quote \<or> c = CHR 0x5C then [CHR 0x5C, c]
      else if c = CHR 0x09 then [CHR 0x5C, CHR ''t'']
      else if c = CHR 0x0A then [CHR 0x5C, CHR ''n'']
      else if c = CHR 0x0D then [CHR 0x5C, CHR ''r'']
      else if py_printable c then [c]
      else [CHR 0x5C, CHR ''x'', hex_digit (of_char c div 16), hex_digit (of_char c)])"

definition py_repr :: "string \<Rightarrow> string" where
  "py_repr s =
     (let quote = (if CHR 0x27 \<in> set s \<and> CHR 0x22 \<notin> set s then CHR 0x22 else CHR 0x27)
      in [quote] @ concat (map (repr_char quote) s) @ [quote])"

text \<open>\<^verbatim>\<open>print(x)\<close> writes \<^verbatim>\<open>str(x)\<close> and a line feed to standard output.\<close>

definition print :: "string \<Rightarrow> string" where
  "print s = s @ newline"

definition str_bool :: "bool \<Rightarrow> string" where
  "str_bool b = (if b then ''True'' else ''False'')"

section \<open>hashlib: SHA-1 and SHA-2\<close>

text \<open>
  \<^verbatim>\<open>hashlib.sha1\<close>, \<^verbatim>\<open>sha224\<close>, \<^verbatim>\<open>sha256\<close>, \<^verbatim>\<open>sha384\<close> and \<^verbatim>\<open>sha512\<close> are library
  code that checksum.py calls; they are modelled after the Secure Hash Standard
  (FIPS 180-4), on \<^typ>\<open>32 word\<close> and \<^typ>\<open>64 word\<close>, whose addition wraps around.
\<close>

type_synonym w32 = "32 word"
type_synonym w64 = "64 word"

definition rotl :: "nat \<Rightarrow> 'a::len word \<Rightarrow> 'a word" where
  "rotl n x = push_bit n x OR drop_bit (LENGTH('a) - n) x"

definition rotr :: "nat \<Rightarrow> 'a::len word \<Rightarrow> 'a word" where
  "rotr n x = drop_bit n x OR push_bit (LENGTH('a) - n) x"

text \<open>Big-endian: octets to a word, and the \<open>n\<close> low octets of a number.\<close>

definition be_word :: "bytes \<Rightarrow> 'a::len word" where
  "be_word bs = foldl (\<lambda>w b. push_bit 8 w OR ucast b) 0 bs"

definition be_bytes :: "nat \<Rightarrow> nat \<Rightarrow> bytes" where
  "be_bytes n k = map (\<lambda>i. of_nat (k div 256 ^ i)) (rev [0..<n])"

function chunks :: "nat \<Rightarrow> 'a list \<Rightarrow> 'a list list" where
  "chunks n xs = (if n = 0 \<or> xs = [] then [] else take n xs # chunks n (drop n xs))"
  by pat_completeness auto
termination
  by (relation "measure (\<lambda>(n, xs). length xs)") auto

declare chunks.simps [simp del]

text \<open>
  Padding: the octet 0x80, zero octets up to a multiple of the block size \<open>blk\<close> less
  the length field, and the message length in bits in \<open>lenb\<close> octets.
\<close>

definition sha_pad :: "nat \<Rightarrow> nat \<Rightarrow> bytes \<Rightarrow> bytes" where
  "sha_pad blk lenb m =
     m @ [0x80] @ replicate ((2 * blk - 1 - lenb - length m mod blk) mod blk) 0
       @ be_bytes lenb (8 * length m)"

subsection \<open>SHA-1\<close>

type_synonym sha1_state = "w32 \<times> w32 \<times> w32 \<times> w32 \<times> w32"

definition sha1_init :: sha1_state where
  "sha1_init = (0x67452301, 0xEFCDAB89, 0x98BADCFE, 0x10325476, 0xC3D2E1F0)"

definition sha1_f :: "nat \<Rightarrow> w32 \<Rightarrow> w32 \<Rightarrow> w32 \<Rightarrow> w32" where
  "sha1_f t b c d =
     (if t < 20 then (b AND c) OR (NOT b AND d)
      else if t < 40 then b XOR c XOR d
      else if t < 60 then (b AND c) OR (b AND d) OR (c AND d)
      else b XOR c XOR d)"

definition sha1_k :: "nat \<Rightarrow> w32" where
  "sha1_k t =
     (if t < 20 then 0x5A827999
      else if t < 40 then 0x6ED9EBA1
      else if t < 60 then 0x8F1BBCDC
      else 0xCA62C1D6)"

definition sha1_expand :: "nat \<Rightarrow> w32 list \<Rightarrow> w32 list" where
  "sha1_expand t w =
     w @ [rotl 1 (w ! (t - 3) XOR w ! (t - 8) XOR w ! (t - 14) XOR w ! (t - 16))]"

definition sha1_schedule :: "w32 list \<Rightarrow> w32 list" where
  "sha1_schedule w = fold sha1_expand [16..<80] w"

definition sha1_round :: "w32 list \<Rightarrow> nat \<Rightarrow> sha1_state \<Rightarrow> sha1_state" where
  "sha1_round w t s =
     (case s of (a, b, c, d, e) \<Rightarrow>
        (rotl 5 a + sha1_f t b c d + e + sha1_k t + w ! t, a, rotl 30 b, c, d))"

definition sha1_add :: "sha1_state \<Rightarrow> sha1_state \<Rightarrow> sha1_state" where
  "sha1_add s s' =
     (case (s, s') of ((a, b, c, d, e), (a', b', c', d', e')) \<Rightarrow>
        (a + a', b + b', c + c', d + d', e + e'))"

definition sha1_compress :: "bytes \<Rightarrow> sha1_state \<Rightarrow> sha1_state" where
  "sha1_compress blk h =
     sha1_add h (fold (sha1_round (sha1_schedule (map be_word (chunks 4 blk)))) [0..<80] h)"

definition sha1 :: "bytes \<Rightarrow> bytes" where
  "sha1 m =
     (case fold sha1_compress (chunks 64 (sha_pad 64 8 m)) sha1_init of
        (a, b, c, d, e) \<Rightarrow> concat (map (\<lambda>x. be_bytes 4 (unat x)) [a, b, c, d, e]))"

subsection \<open>SHA-2\<close>

definition Ch :: "'a::len word \<Rightarrow> 'a word \<Rightarrow> 'a word \<Rightarrow> 'a word" where
  "Ch x y z = (x AND y) XOR (NOT x AND z)"

definition Maj :: "'a::len word \<Rightarrow> 'a word \<Rightarrow> 'a word \<Rightarrow> 'a word" where
  "Maj x y z = (x AND y) XOR (x AND z) XOR (y AND z)"

text \<open>
  The four mixing functions of a SHA-2 family, each given by its three shift amounts:
  the two upper-case sigmas rotate three times, the two lower-case ones rotate twice and
  shift once.
\<close>

record sha2_family =
  Sum0 :: "nat \<times> nat \<times> nat"
  Sum1 :: "nat \<times> nat \<times> nat"
  sig0 :: "nat \<times> nat \<times> nat"
  sig1 :: "nat \<times> nat \<times> nat"
  rounds :: nat

definition sha2_32 :: sha2_family where
  "sha2_32 = \<lparr>Sum0 = (2, 13, 22), Sum1 = (6, 11, 25), sig0 = (7, 18, 3), sig1 = (17, 19, 10),
     rounds = 64\<rparr>"

definition sha2_64 :: sha2_family where
  "sha2_64 = \<lparr>Sum0 = (28, 34, 39), Sum1 = (14, 18, 41), sig0 = (1, 8, 7), sig1 = (19, 61, 6),
     rounds = 80\<rparr>"

definition big_sigma :: "nat \<times> nat \<times> nat \<Rightarrow> 'a::len word \<Rightarrow> 'a word" where
  "big_sigma r x = (case r of (p, q, s) \<Rightarrow> rotr p x XOR rotr q x XOR rotr s x)"

definition small_sigma :: "nat \<times> nat \<times> nat \<Rightarrow> 'a::len word \<Rightarrow> 'a word" where
  "small_sigma r x = (case r of (p, q, s) \<Rightarrow> rotr p x XOR rotr q x XOR drop_bit s x)"

definition K256 :: "w32 list" where
  "K256 =
     [0x428A2F98, 0x71374491, 0xB5C0FBCF, 0xE9B5DBA5, 0x3956C25B, 0x59F111F1,
      0x923F82A4, 0xAB1C5ED5, 0xD807AA98, 0x12835B01, 0x243185BE, 0x550C7DC3,
      0x72BE5D74, 0x80DEB1FE, 0x9BDC06A7, 0xC19BF174, 0xE49B69C1, 0xEFBE4786,
      0x0FC19DC6, 0x240CA1CC, 0x2DE92C6F, 0x4A7484AA, 0x5CB0A9DC, 0x76F988DA,
      0x983E5152, 0xA831C66D, 0xB00327C8, 0xBF597FC7, 0xC6E00BF3, 0xD5A79147,
      0x06CA6351, 0x14292967, 0x27B70A85, 0x2E1B2138, 0x4D2C6DFC, 0x53380D13,
      0x650A7354, 0x766A0ABB, 0x81C2C92E, 0x92722C85, 0xA2BFE8A1, 0xA81A664B,
      0xC24B8B70, 0xC76C51A3, 0xD192E819, 0xD6990624, 0xF40E3585, 0x106AA070,
      0x19A4C116, 0x1E376C08, 0x2748774C, 0x34B0BCB5, 0x391C0CB3, 0x4ED8AA4A,
      0x5B9CCA4F, 0x682E6FF3, 0x748F82EE, 0x78A5636F, 0x84C87814, 0x8CC70208,
      0x90BEFFFA, 0xA4506CEB, 0xBEF9A3F7, 0xC67178F2]"

definition K512 :: "w64 list" where
  "K512 =
     [0x428A2F98D728AE22, 0x7137449123EF65CD, 0xB5C0FBCFEC4D3B2F,
      0xE9B5DBA58189DBBC, 0x3956C25BF348B538, 0x59F111F1B605D019,
      0x923F82A4AF194F9B, 0xAB1C5ED5DA6D8118, 0xD807AA98A3030242,
      0x12835B0145706FBE, 0x243185BE4EE4B28C, 0x550C7DC3D5FFB4E2,
      0x72BE5D74F27B896F, 0x80DEB1FE3B1696B1, 0x9BDC06A725C71235,
      0xC19BF174CF692694, 0xE49B69C19EF14AD2, 0xEFBE4786384F25E3,
      0x0FC19DC68B8CD5B5, 0x240CA1CC77AC9C65, 0x2DE92C6F592B0275,
      0x4A7484AA6EA6E483, 0x5CB0A9DCBD41FBD4, 0x76F988DA831153B5,
      0x983E5152EE66DFAB, 0xA831C66D2DB43210, 0xB00327C898FB213F,
      0xBF597FC7BEEF0EE4, 0xC6E00BF33DA88FC2, 0xD5A79147930AA725,
      0x06CA6351E003826F, 0x142929670A0E6E70, 0x27B70A8546D22FFC,
      0x2E1B21385C26C926, 0x4D2C6DFC5AC42AED, 0x53380D139D95B3DF,
      0x650A73548BAF63DE, 0x766A0ABB3C77B2A8, 0x81C2C92E47EDAEE6,
      0x92722C851482353B, 0xA2BFE8A14CF10364, 0xA81A664BBC423001,
      0xC24B8B70D0F89791, 0xC76C51A30654BE30, 0xD192E819D6EF5218,
      0xD69906245565A910, 0xF40E35855771202A, 0x106AA07032BBD1B8,
      0x19A4C116B8D2D0C8, 0x1E376C085141AB53, 0x2748774CDF8EEB99,
      0x34B0BCB5E19B48A8, 0x391C0CB3C5C95A63, 0x4ED8AA4AE3418ACB,
      0x5B9CCA4F7763E373, 0x682E6FF3D6B2B8A3, 0x748F82EE5DEFB2FC,
      0x78A5636F43172F60, 0x84C87814A1F0AB72, 0x8CC702081A6439EC,
      0x90BEFFFA23631E28, 0xA4506CEBDE82BDE9, 0xBEF9A3F7B2C67915,
      0xC67178F2E372532B, 0xCA273ECEEA26619C, 0xD186B8C721C0C207,
      0xEADA7DD6CDE0EB1E, 0xF57D4F7FEE6ED178, 0x06F067AA72176FBA,
      0x0A637DC5A2C898A6, 0x113F9804BEF90DAE, 0x1B710B35131C471B,
      0x28DB77F523047D84, 0x32CAAB7B40C72493, 0x3C9EBE0A15C9BEBC,
      0x431D67C49C100D4C, 0x4CC5D4BECB3E42B6, 0x597F299CFC657E2A,
      0x5FCB6FAB3AD6FAEC, 0x6C44198C4A475817]"

type_synonym 'a sha2_state =
  "'a word \<times> 'a word \<times> 'a word \<times> 'a word \<times> 'a word \<times> 'a word \<times> 'a word \<times> 'a word"

definition sha224_init :: "32 sha2_state" where
  "sha224_init =
     (0xC1059ED8, 0x367CD507, 0x3070DD17, 0xF70E5939,
      0xFFC00B31, 0x68581511, 0x64F98FA7, 0xBEFA4FA4)"

definition sha256_init :: "32 sha2_state" where
  "sha256_init =
     (0x6A09E667, 0xBB67AE85, 0x3C6EF372, 0xA54FF53A,
      0x510E527F, 0x9B05688C, 0x1F83D9AB, 0x5BE0CD19)"

definition sha384_init :: "64 sha2_state" where
  "sha384_init =
     (0xCBBB9D5DC1059ED8, 0x629A292A367CD507, 0x9159015A3070DD17, 0x152FECD8F70E5939,
      0x67332667FFC00B31, 0x8EB44A8768581511, 0xDB0C2E0D64F98FA7, 0x47B5481DBEFA4FA4)"

definition sha512_init :: "64 sha2_state" where
  "sha512_init =
     (0x6A09E667F3BCC908, 0xBB67AE8584CAA73B, 0x3C6EF372FE94F82B, 0xA54FF53A5F1D36F1,
      0x510E527FADE682D1, 0x9B05688C2B3E6C1F, 0x1F83D9ABFB41BD6B, 0x5BE0CD19137E2179)"

definition sha2_expand :: "sha2_family \<Rightarrow> nat \<Rightarrow> 'a::len word list \<Rightarrow> 'a word list" where
  "sha2_expand fam t w =
     w @ [small_sigma (sig1 fam) (w ! (t - 2)) + w ! (t - 7)
          + small_sigma (sig0 fam) (w ! (t - 15)) + w ! (t - 16)]"

definition sha2_schedule :: "sha2_family \<Rightarrow> 'a::len word list \<Rightarrow> 'a word list" where
  "sha2_schedule fam w = fold (sha2_expand fam) [16..<rounds fam] w"

definition sha2_round ::
  "sha2_family \<Rightarrow> 'a::len word list \<Rightarrow> 'a word list \<Rightarrow> nat \<Rightarrow> 'a sha2_state \<Rightarrow> 'a sha2_state"
where
  "sha2_round fam k w t s =
     (case s of (a, b, c, d, e, f, g, h) \<Rightarrow>
        let t1 = h + big_sigma (Sum1 fam) e + Ch e f g + k ! t + w ! t;
            t2 = big_sigma (Sum0 fam) a + Maj a b c
        in (t1 + t2, a, b, c, d + t1, e, f, g))"

definition sha2_add :: "'a::len sha2_state \<Rightarrow> 'a sha2_state \<Rightarrow> 'a sha2_state" where
  "sha2_add s s' =
     (case (s, s') of
        ((a, b, c, d, e, f, g, h), (a', b', c', d', e', f', g', h')) \<Rightarrow>
          (a + a', b + b', c + c', d + d', e + e', f + f', g + g', h + h'))"

definition sha2_compress ::
  "sha2_family \<Rightarrow> 'a::len word list \<Rightarrow> bytes \<Rightarrow> 'a sha2_state \<Rightarrow> 'a sha2_state"
where
  "sha2_compress fam k blk h =
     sha2_add h
       (fold (sha2_round fam k (sha2_schedule fam (map be_word (chunks (LENGTH('a) div 8) blk))))
          [0..<rounds fam] h)"

definition sha2_words :: "'a::len sha2_state \<Rightarrow> 'a word list" where
  "sha2_words s = (case s of (a, b, c, d, e, f, g, h) \<Rightarrow> [a, b, c, d, e, f, g, h])"

definition sha2_32_digest :: "32 sha2_state \<Rightarrow> nat \<Rightarrow> bytes \<Rightarrow> bytes" where
  "sha2_32_digest init n m =
     concat (map (\<lambda>x. be_bytes 4 (unat x))
       (take n (sha2_words (fold (sha2_compress sha2_32 K256) (chunks 64 (sha_pad 64 8 m)) init))))"

definition sha2_64_digest :: "64 sha2_state \<Rightarrow> nat \<Rightarrow> bytes \<Rightarrow> bytes" where
  "sha2_64_digest init n m =
     concat (map (\<lambda>x. be_bytes 8 (unat x))
       (take n (sha2_words (fold (sha2_compress sha2_64 K512) (chunks 128 (sha_pad 128 16 m)) init))))"

text \<open>SHA-224 and SHA-384 keep the first seven and the first six words of the state.\<close>

definition sha224 :: "bytes \<Rightarrow> bytes" where
  "sha224 = sha2_32_digest sha224_init 7"

definition sha256 :: "bytes \<Rightarrow> bytes" where
  "sha256 = sha2_32_digest sha256_init 8"

definition sha384 :: "bytes \<Rightarrow> bytes" where
  "sha384 = sha2_64_digest sha384_init 6"

definition sha512 :: "bytes \<Rightarrow> bytes" where
  "sha512 = sha2_64_digest sha512_init 8"

text \<open>\<^verbatim>\<open>hexdigest()\<close>: two lower-case hexadecimal digits for every octet of the digest.\<close>

definition hexdigest :: "bytes \<Rightarrow> string" where
  "hexdigest d = concat (map (\<lambda>b. [hex_digit (unat b div 16), hex_digit (unat b)]) d)"

section \<open>checksum.py\<close>

subsection \<open>Constants, errors and effects\<close>

definition KIBIBYTE :: int where
  "KIBIBYTE = 1024"

definition MEBIBYTE :: int where
  "MEBIBYTE = 1024 * KIBIBYTE"

definition DEFAULT_CAFILE_PATHS :: "string list" where
  "DEFAULT_CAFILE_PATHS = [''/etc/ssl/certs/cacert.pem'', ''/etc/ssl/cert.pem'']"

definition DEFAULT_USER_AGENT :: string where
  "DEFAULT_USER_AGENT =
     ''Mozilla/5.0 (Macintosh; Intel Mac OS X 10_15_7) AppleWebKit/537.36 ''
     @ ''(KHTML, like Gecko) Chrome/85.0.4183.121 Safari/537.36''"

text \<open>
  The exceptions that can leave \<^verbatim>\<open>main\<close>, each with the text that tells it apart:
  \<^item> \<open>AttributeError name\<close>: \<^verbatim>\<open>getattr(hashlib, name)\<close> finds no such attribute
    (the specification's UnsupportedAlgorithm);
  \<^item> \<open>FileNotFoundError msg\<close>: raised by \<^verbatim>\<open>get_default_cafile\<close>
    (the specification's TrustAnchorNotFound);
  \<^item> \<open>OSError path\<close>: \<^verbatim>\<open>open(path, 'rb')\<close> fails (IOError);
  \<^item> \<open>ValueError url\<close>: \<^verbatim>\<open>urllib.request.Request\<close> finds no URL type in \<open>url\<close>;
  \<^item> \<open>SSLError cafile\<close>: \<^verbatim>\<open>ssl.create_default_context\<close> cannot load the file;
  \<^item> \<open>URLError url\<close>: \<^verbatim>\<open>urlopen\<close> fails (NetworkError).
\<close>

datatype error =
    AttributeError string
  | FileNotFoundError string
  | OSError string
  | ValueError string
  | SSLError string
  | URLError string

text \<open>
  A request as \<^verbatim>\<open>urllib.request.Request\<close> keeps it: the URL without its fragment, the
  fragment, the URL type (scheme) and the headers.
\<close>

record request =
  full_url :: string
  fragment :: "string option"
  url_type :: string
  headers :: "(string \<times> string) list"

text \<open>
  What the program does to the world outside it, in the order it does it: a call of
  \<^verbatim>\<open>os.path.exists\<close>, of \<^verbatim>\<open>open\<close>, of \<^verbatim>\<open>ssl.create_default_context\<close> with a file, and
  of \<^verbatim>\<open>urlopen\<close> (the network call).
\<close>

datatype event =
    PathExists string
  | OpenRead string
  | LoadCafile string
  | UrlOpen request

text \<open>
  The world the program runs in: the content of every file that can be opened for
  reading, the paths that exist, the files that load as certificate bundles, and the
  body that the server sends for a request under a TLS context (\<open>None\<close> when the request
  fails).  A TLS context is the certificate file it was made from.
\<close>

type_synonym ssl_context = "string option"

record world =
  files :: "string \<rightharpoonup> bytes"
  path_exists :: "string \<Rightarrow> bool"
  cafile_loads :: "string \<Rightarrow> bool"
  respond :: "request \<Rightarrow> ssl_context \<Rightarrow> bytes option"

text \<open>A computation with effects: the events it caused, and its result or exception.\<close>

type_synonym 'a io = "event list \<times> (error + 'a)"

definition io_pure :: "'a \<Rightarrow> 'a io" where
  "io_pure x = ([], Inr x)"

definition io_lift :: "error + 'a \<Rightarrow> 'a io" where
  "io_lift r = ([], r)"

definition io_bind :: "'a io \<Rightarrow> ('a \<Rightarrow> 'b io) \<Rightarrow> 'b io" where
  "io_bind m f =
     (case m of
        (tr, Inl e) \<Rightarrow> (tr, Inl e)
      | (tr, Inr x) \<Rightarrow> (case f x of (tr', r) \<Rightarrow> (tr @ tr', r)))"

subsection \<open>\<^verbatim>\<open>get_alogirthm_function\<close> and \<^verbatim>\<open>get_hashsum\<close>\<close>

text \<open>\<^verbatim>\<open>str\<close> of an \<^verbatim>\<open>int\<close>, which the f-string \<^verbatim>\<open>f"sha{algorithm_version}"\<close> calls.\<close>

definition dec_digit :: "nat \<Rightarrow> char" where
  "dec_digit n = ''0123456789'' ! (n mod 10)"

function str_nat :: "nat \<Rightarrow> string" where
  "str_nat n = (if n < 10 then [dec_digit n] else str_nat (n div 10) @ [dec_digit n])"
  by pat_completeness auto
termination
  by (relation "measure id") auto

declare str_nat.simps [simp del]

definition str_int :: "int \<Rightarrow> string" where
  "str_int i = (if i < 0 then CHR ''-'' # str_nat (nat (- i)) else str_nat (nat i))"

text \<open>
  The attributes of \<^verbatim>\<open>hashlib\<close> whose names are \<^verbatim>\<open>sha\<close> and a decimal number, with the
  digest each computes.  \<open>hashlib_other_names\<close> lists the remaining public attributes;
  lemma \<open>sha_name_not_other\<close> shows that \<^verbatim>\<open>f"sha{algorithm_version}"\<close> is never one of them.
\<close>

definition hashlib_sha :: "(string \<times> (bytes \<Rightarrow> bytes)) list" where
  "hashlib_sha =
     [(''sha1'', sha1), (''sha224'', sha224), (''sha256'', sha256),
      (''sha384'', sha384), (''sha512'', sha512)]"

definition hashlib_other_names :: "string list" where
  "hashlib_other_names =
     [''algorithms_available'', ''algorithms_guaranteed'', ''blake2b'', ''blake2s'',
      ''file_digest'', ''md5'', ''new'', ''pbkdf2_hmac'', ''scrypt'', ''sha3_224'',
      ''sha3_256'', ''sha3_384'', ''sha3_512'', ''shake_128'', ''shake_256'']"

definition get_alogirthm_function :: "int \<Rightarrow> error + (bytes \<Rightarrow> bytes)" where
  "get_alogirthm_function algorithm_version =
     (let name = ''sha'' @ str_int algorithm_version
      in case map_of hashlib_sha name of
           None \<Rightarrow> Inl (AttributeError name)
         | Some f \<Rightarrow> Inr f)"

definition get_hashsum :: "int \<Rightarrow> bytes \<Rightarrow> error + string" where
  "get_hashsum algorithm_version b =
     (case get_alogirthm_function algorithm_version of
        Inl e \<Rightarrow> Inl e
      | Inr f \<Rightarrow> Inr (hexdigest (f b)))"

subsection \<open>\<^verbatim>\<open>create_ssl_context\<close>, \<^verbatim>\<open>get_headers\<close>, \<^verbatim>\<open>build_request\<close>\<close>

definition create_ssl_context :: "world \<Rightarrow> string option \<Rightarrow> ssl_context io" where
  "create_ssl_context w cafile =
     (case cafile of
        None \<Rightarrow> io_pure None
      | Some path \<Rightarrow>
          ([LoadCafile path],
           if cafile_loads w path then Inr (Some path) else Inl (SSLError path)))"

definition get_headers :: "string \<Rightarrow> (string \<times> string) list" where
  "get_headers user_agent = [(''User-Agent'', user_agent)]"

text \<open>
  \<^verbatim>\<open>urllib.request.Request(url, headers=headers)\<close> unwraps the URL, cuts its fragment off and
  splits its type off; it raises \<^verbatim>\<open>ValueError\<close> when the URL has no type.
  \<^verbatim>\<open>str.strip()\<close> removes white space from both ends.
\<close>

definition py_isspace :: "char \<Rightarrow> bool" where
  "py_isspace c =
     (let n = of_char c :: nat
      in 0x09 \<le> n \<and> n \<le> 0x0D \<or> 0x1C \<le> n \<and> n \<le> 0x20 \<or> n = 0x85 \<or> n = 0xA0)"

definition strip :: "string \<Rightarrow> string" where
  "strip s = rev (dropWhile py_isspace (rev (dropWhile py_isspace s)))"

definition py_lower :: "char \<Rightarrow> char" where
  "py_lower c =
     (let n = of_char c :: nat
      in if 0x41 \<le> n \<and> n \<le> 0x5A \<or> 0xC0 \<le> n \<and> n \<le> 0xDE \<and> n \<noteq> 0xD7
         then char_of (n + 0x20) else c)"

definition unwrap :: "string \<Rightarrow> string" where
  "unwrap url =
     (let url = strip url;
          url = (if take 1 url = ''<'' \<and> take 1 (rev url) = ''>''
                 then strip (butlast (tl url)) else url)
      in if take 4 url = ''URL:'' then strip (drop 4 url) else url)"

definition splittag :: "string \<Rightarrow> string \<times> string option" where
  "splittag url =
     (if CHR ''#'' \<in> set url
      then (rev (tl (dropWhile (\<lambda>c. c \<noteq> CHR ''#'') (rev url))),
            Some (rev (takeWhile (\<lambda>c. c \<noteq> CHR ''#'') (rev url))))
      else (url, None))"

definition splittype :: "string \<Rightarrow> string option \<times> string" where
  "splittype url =
     (let scheme = takeWhile (\<lambda>c. c \<noteq> CHR ''/'' \<and> c \<noteq> CHR '':'') url;
          rest = dropWhile (\<lambda>c. c \<noteq> CHR ''/'' \<and> c \<noteq> CHR '':'') url
      in if scheme \<noteq> [] \<and> take 1 rest = '':''
         then (Some (map py_lower scheme), tl rest) else (None, url))"

definition build_request :: "string \<Rightarrow> (string \<times> string) list \<Rightarrow> error + request" where
  "build_request url hdrs =
     (case splittag (unwrap url) of
        (u, frag) \<Rightarrow>
          (case fst (splittype u) of
             None \<Rightarrow> Inl (ValueError u)
           | Some t \<Rightarrow>
               Inr \<lparr>full_url = u, fragment = frag, url_type = t, headers = hdrs\<rparr>))"

subsection \<open>\<^verbatim>\<open>read_bytes\<close>, \<^verbatim>\<open>read_file\<close>, \<^verbatim>\<open>read_request\<close>\<close>

text \<open>
  A readable object is the octets that it has yet to deliver.  \<^verbatim>\<open>read(n)\<close> delivers the
  next \<open>n\<close> of them, fewer at the end of the data, and all of them when \<open>n\<close> is negative;
  it returns them with the readable object after the call.
\<close>

definition readable_read :: "bytes \<Rightarrow> int \<Rightarrow> bytes \<times> bytes" where
  "readable_read readable n =
     (if n < 0 then (readable, [])
      else (take (nat n) readable, drop (nat n) readable))"

text \<open>The loop of \<^verbatim>\<open>read_bytes\<close>, from the readable object and the octets \<open>b\<close> read so far.\<close>

function read_bytes_loop :: "bytes \<Rightarrow> int \<Rightarrow> bytes \<Rightarrow> bytes" where
  "read_bytes_loop readable chunk_size b =
     (if fst (readable_read readable chunk_size) = [] then b
      else read_bytes_loop (snd (readable_read readable chunk_size)) chunk_size
             (b @ fst (readable_read readable chunk_size)))"
  by pat_completeness auto
termination
  by (relation "measure (\<lambda>(readable, chunk_size, b). length readable)")
    (auto simp: readable_read_def split: if_splits)

declare read_bytes_loop.simps [simp del]

definition read_bytes :: "bytes \<Rightarrow> int \<Rightarrow> bytes" where
  "read_bytes readable chunk_size = read_bytes_loop readable chunk_size []"

definition read_file :: "world \<Rightarrow> string \<Rightarrow> bytes io" where
  "read_file w path =
     ([OpenRead path],
      case files w path of
        None \<Rightarrow> Inl (OSError path)
      | Some fp \<Rightarrow> Inr (read_bytes fp MEBIBYTE))"

definition read_request :: "world \<Rightarrow> request \<Rightarrow> ssl_context \<Rightarrow> bytes io" where
  "read_request w req ssl_context =
     ([UrlOpen req],
      case respond w req ssl_context of
        None \<Rightarrow> Inl (URLError (full_url req))
      | Some fp \<Rightarrow> Inr (read_bytes fp (4 * KIBIBYTE)))"

subsection \<open>\<^verbatim>\<open>get_default_cafile\<close>\<close>

text \<open>The loop over the paths that are still to be tried.\<close>

fun first_cafile :: "world \<Rightarrow> string list \<Rightarrow> string io" where
  "first_cafile w [] = ([], Inl (FileNotFoundError ''Cannot find any cafile''))"
| "first_cafile w (cafile_path # paths) =
     (if path_exists w cafile_path then ([PathExists cafile_path], Inr cafile_path)
      else (case first_cafile w paths of (tr, r) \<Rightarrow> (PathExists cafile_path # tr, r)))"

definition get_default_cafile :: "world \<Rightarrow> string io" where
  "get_default_cafile w = first_cafile w DEFAULT_CAFILE_PATHS"

subsection \<open>The report at the end of \<^verbatim>\<open>main\<close>\<close>

text \<open>
  Lines 119 to 131 of \<^verbatim>\<open>main\<close>: what is written to standard output and the value that
  \<^verbatim>\<open>main\<close> returns (the exit code), from the computed digest and the \<^verbatim>\<open>--hashsum\<close>
  argument (\<open>None\<close> when the option is absent).
\<close>

definition main_report :: "string \<Rightarrow> string option \<Rightarrow> string \<times> int" where
  "main_report target_hashsum hashsum =
     (case hashsum of
        None \<Rightarrow> (print (''Target hassum is '' @ py_repr target_hashsum), 0)
      | Some h \<Rightarrow>
          if target_hashsum = h then (print (str_bool True), 0)
          else (print (str_bool False), 1))"

subsection \<open>\<^verbatim>\<open>main\<close>\<close>

text \<open>
  The namespace that \<^verbatim>\<open>parser.parse_args()\<close> returns.  \<open>cafile\<close> and \<open>hashsum\<close> are \<open>None\<close>
  when their options are absent; the parser puts the default 1 in \<open>algorithm_version\<close> and
  \<open>DEFAULT_USER_AGENT\<close> in \<open>user_agent\<close>.
\<close>

record args =
  target :: string
  algorithm_version :: int
  user_agent :: string
  cafile :: "string option"
  hashsum :: "string option"

definition startswith :: "string \<Rightarrow> string \<Rightarrow> bool" where
  "startswith s prefix = (take (length prefix) s = prefix)"

text \<open>Lines 103 to 115: the octets of the target, from the network or from a file.\<close>

definition main_fetch :: "world \<Rightarrow> args \<Rightarrow> bytes io" where
  "main_fetch w a =
     (if startswith (target a) ''http'' then
        io_bind (io_lift (build_request (target a) (get_headers (user_agent a)))) (\<lambda>req.
        io_bind (case cafile a of
                   None \<Rightarrow> get_default_cafile w
                 | Some c \<Rightarrow> if c = [] then get_default_cafile w else io_pure c) (\<lambda>cafile.
        io_bind (create_ssl_context w (Some cafile)) (\<lambda>ssl_context.
        read_request w req ssl_context)))
      else read_file w (target a))"

text \<open>
  \<^verbatim>\<open>main\<close>: the events, and either the exception that ends the program or what was
  written to standard output with the exit code.
\<close>

definition main :: "world \<Rightarrow> args \<Rightarrow> (string \<times> int) io" where
  "main w a =
     io_bind (main_fetch w a) (\<lambda>b.
     io_bind (io_lift (get_hashsum (algorithm_version a) b)) (\<lambda>target_hashsum.
     io_pure (main_report target_hashsum (hashsum a))))"

section \<open>Example inputs\<close>

text \<open>The octets of \<^verbatim>\<open>b"abc"\<close>.\<close>

definition abc :: bytes where
  "abc = [0x61, 0x62, 0x63]"

text \<open>
  The values that SHA-1 goes through on \<open>abc\<close>: the padded message (one block), its
  sixteen words and the message schedule of eighty words.
\<close>

definition abc_block :: bytes where
  "abc_block =
     [0x61, 0x62, 0x63, 0x80, 0x00, 0x00, 0x00, 0x00, 0x00, 0x00, 0x00, 0x00, 0x00, 0x00, 0x00, 0x00,
      0x00, 0x00, 0x00, 0x00, 0x00, 0x00, 0x00, 0x00, 0x00, 0x00, 0x00, 0x00, 0x00, 0x00, 0x00, 0x00,
      0x00, 0x00, 0x00, 0x00, 0x00, 0x00, 0x00, 0x00, 0x00, 0x00, 0x00, 0x00, 0x00, 0x00, 0x00, 0x00,
      0x00, 0x00, 0x00, 0x00, 0x00, 0x00, 0x00, 0x00, 0x00, 0x00, 0x00, 0x00, 0x00, 0x00, 0x00, 0x18]"

definition abc_w16 :: "w32 list" where
  "abc_w16 =
     [0x61626380, 0x00000000, 0x00000000, 0x00000000, 0x00000000, 0x00000000,
      0x00000000, 0x00000000, 0x00000000, 0x00000000, 0x00000000, 0x00000000,
      0x00000000, 0x00000000, 0x00000000, 0x00000018]"

definition abc_w80 :: "w32 list" where
  "abc_w80 =
     [0x61626380, 0x00000000, 0x00000000, 0x00000000, 0x00000000, 0x00000000,
      0x00000000, 0x00000000, 0x00000000, 0x00000000, 0x00000000, 0x00000000,
      0x00000000, 0x00000000, 0x00000000, 0x00000018, 0xC2C4C700, 0x00000000,
      0x00000030, 0x85898E01, 0x00000000, 0x00000060, 0x0B131C03, 0x00000030,
      0x85898EC1, 0x16263806, 0x00000000, 0x00000180, 0x2C4C700C, 0x000000F0,
      0x93AFB507, 0x5898E048, 0x8E9A9202, 0x00000600, 0xB131C0F0, 0x16263BC6,
      0x4EBED41E, 0x626380A1, 0x16263806, 0x000018C0, 0xD2E138C4, 0x00000F00,
      0x3AFB5079, 0x898E04E5, 0xE2BA3C2B, 0x000060C0, 0x053A37CD, 0x74458547,
      0xDA9415ED, 0x26380A16, 0x626383A1, 0x4EBF54DE, 0x3835B44B, 0x0000F600,
      0x1E84C7A3, 0x98E04D98, 0x651D16A0, 0x62658CA1, 0x458544D6, 0x44584CB7,
      0x7BA06619, 0x6380AEA2, 0x0AE55269, 0x627B49A1, 0x7CD45C9D, 0x000F0000,
      0xFB50753A, 0xEC6765E8, 0xBA3C2BE2, 0x0060C000, 0x3A37CD05, 0x458546F4,
      0xB8599DD6, 0x380A1A26, 0x01E02203, 0xE7CC3456, 0xE6E60B69, 0x00F60A00,
      0x5795EF4F, 0x822E0879]"

text \<open>
  A world with two files, in which the second default certificate bundle exists and a
  server answers one URL; and the same world without any certificate bundle.
\<close>

definition example_world :: world where
  "example_world =
     \<lparr>files = [''abc.txt'' \<mapsto> abc, ''empty.bin'' \<mapsto> []],
      path_exists = (\<lambda>p. p = ''/etc/ssl/cert.pem''),
      cafile_loads = (\<lambda>p. True),
      respond = (\<lambda>req ctx. if full_url req = ''https://example.org/abc'' then Some abc else None)\<rparr>"


text \<open>The arguments of \<^verbatim>\<open>checksum.py -T target\<close>, every other option at its default.\<close>

definition example_args :: "string \<Rightarrow> args" where
  "example_args t =
     \<lparr>target = t, algorithm_version = 1, user_agent = DEFAULT_USER_AGENT,
      cafile = None, hashsum = None\<rparr>"

section \<open>Lemmas\<close>

subsection \<open>SHA-1 of \<open>abc\<close>\<close>

lemma replicate_numeral_Cons: "replicate (numeral k) x = x # replicate (pred_numeral k) x"
  by (simp add: numeral_eq_Suc)

lemma sha_pad_abc: "sha_pad 64 8 abc = abc_block"
  by (simp add: abc_def abc_block_def sha_pad_def be_bytes_def upt_conv_Cons replicate_numeral_Cons)

lemma chunks_abc_block: "chunks 64 abc_block = [abc_block]"
  by (simp add: abc_block_def chunks.simps[of 64])

lemma words_abc_block: "map be_word (chunks 4 abc_block) = abc_w16"
  by (simp add: abc_block_def abc_w16_def chunks.simps[of 4] be_word_def)

lemma sha1_schedule_abc: "sha1_schedule abc_w16 = abc_w80"
  by (simp add: sha1_schedule_def sha1_expand_def rotl_def abc_w16_def abc_w80_def)

lemma sha1_rounds_abc:
  "fold (sha1_round abc_w80) [0..<80] sha1_init =
     (0x42541B35, 0x5738D5E1, 0x21834873, 0x681E6DF6, 0xD8FDF6AD)"
  by (simp add: sha1_round_def sha1_f_def sha1_k_def rotl_def abc_w80_def sha1_init_def
      upt_conv_Cons)

lemma sha1_compress_abc:
  "sha1_compress abc_block sha1_init =
     (0xA9993E36, 0x4706816A, 0xBA3E2571, 0x7850C26C, 0x9CD0D89D)"
  unfolding sha1_compress_def words_abc_block sha1_schedule_abc sha1_rounds_abc
  by (simp add: sha1_add_def sha1_init_def)

lemma sha1_abc:
  "sha1 abc =
     [0xA9, 0x99, 0x3E, 0x36, 0x47, 0x06, 0x81, 0x6A, 0xBA, 0x3E,
      0x25, 0x71, 0x78, 0x50, 0xC2, 0x6C, 0x9C, 0xD0, 0xD8, 0x9D]"
  unfolding sha1_def sha_pad_abc chunks_abc_block
  by (simp add: sha1_compress_abc be_bytes_def upt_conv_Cons)

lemma hexdigest_sha1_abc: "hexdigest (sha1 abc) = ''a9993e364706816aba3e25717850c26c9cd0d89d''"
  unfolding sha1_abc by (simp add: hexdigest_def hex_digit_def hex_digits_def)

subsection \<open>Reading\<close>

lemma readable_read_append: "fst (readable_read r n) @ snd (readable_read r n) = r"
  by (simp add: readable_read_def)

lemma readable_read_empty: "n \<noteq> 0 \<Longrightarrow> fst (readable_read r n) = [] \<Longrightarrow> r = []"
  by (auto simp: readable_read_def split: if_splits)

lemma read_bytes_loop_all: "chunk_size \<noteq> 0 \<Longrightarrow> read_bytes_loop r chunk_size b = b @ r"
proof (induction r chunk_size b rule: read_bytes_loop.induct)
  case (1 readable chunk_size b)
  show ?case
  proof (cases "fst (readable_read readable chunk_size) = []")
    case True
    from "1.prems" True have "readable = []" by (rule readable_read_empty)
    moreover have "read_bytes_loop readable chunk_size b = b"
      using True by (subst read_bytes_loop.simps) simp
    ultimately show ?thesis by simp
  next
    case False
    have "read_bytes_loop readable chunk_size b =
        read_bytes_loop (snd (readable_read readable chunk_size)) chunk_size
          (b @ fst (readable_read readable chunk_size))"
      using False by (subst read_bytes_loop.simps) simp
    also have "\<dots> = (b @ fst (readable_read readable chunk_size))
        @ snd (readable_read readable chunk_size)"
      using False "1.prems" by (rule "1.IH")
    also have "\<dots> = b @ readable"
      by (simp add: readable_read_append)
    finally show ?thesis .
  qed
qed

lemma read_bytes_all: "chunk_size \<noteq> 0 \<Longrightarrow> read_bytes r chunk_size = r"
  by (simp add: read_bytes_def read_bytes_loop_all)

lemma read_bytes_zero: "read_bytes r 0 = []"
  by (simp add: read_bytes_def read_bytes_loop.simps [of r] readable_read_def)

lemma read_file_content: "files w path = Some C \<Longrightarrow> read_file w path = ([OpenRead path], Inr C)"
  by (simp add: read_file_def read_bytes_all MEBIBYTE_def KIBIBYTE_def)

subsection \<open>The name of the algorithm\<close>

lemma less_10_cases:
  "(k::nat) < 10 \<Longrightarrow> k = 0 \<or> k = 1 \<or> k = 2 \<or> k = 3 \<or> k = 4 \<or> k = 5 \<or> k = 6 \<or> k = 7 \<or> k = 8 \<or> k = 9"
  by arith

lemma of_char_dec_digit: "of_char (dec_digit n) = (48 + n mod 10 :: nat)"
proof -
  have "n mod 10 < 10" by simp
  from less_10_cases [OF this] show ?thesis
    by (auto simp: dec_digit_def)
qed

lemma dec_digit_eq_iff: "dec_digit m = dec_digit n \<longleftrightarrow> m mod 10 = n mod 10"
proof
  assume "dec_digit m = dec_digit n"
  then have "(of_char (dec_digit m) :: nat) = of_char (dec_digit n)" by simp
  then show "m mod 10 = n mod 10" by (simp add: of_char_dec_digit)
next
  assume "m mod 10 = n mod 10"
  then show "dec_digit m = dec_digit n" by (simp add: dec_digit_def)
qed

lemma dec_digit_not_minus: "dec_digit n \<noteq> CHR ''-''"
proof
  assume "dec_digit n = CHR ''-''"
  then have "(of_char (dec_digit n) :: nat) = of_char CHR ''-''" by simp
  then show False by (simp add: of_char_dec_digit)
qed

lemma str_nat_not_Nil: "str_nat n \<noteq> []"
  by (subst str_nat.simps) simp

lemma hd_str_nat: "hd (str_nat n) \<noteq> CHR ''-''"
proof (induction n rule: str_nat.induct)
  case (1 n)
  show ?case
  proof (cases "n < 10")
    case True
    then show ?thesis by (subst str_nat.simps) (simp add: dec_digit_not_minus)
  next
    case False
    then have "hd (str_nat n) = hd (str_nat (n div 10))"
      by (subst str_nat.simps) (simp add: str_nat_not_Nil)
    with False "1.IH" show ?thesis by simp
  qed
qed

lemma str_nat_inj: "str_nat m = str_nat n \<Longrightarrow> m = n"
proof (induction m arbitrary: n rule: str_nat.induct)
  case (1 m)
  have sm: "str_nat m = (if m < 10 then [dec_digit m] else str_nat (m div 10) @ [dec_digit m])"
    by (rule str_nat.simps)
  have sn: "str_nat n = (if n < 10 then [dec_digit n] else str_nat (n div 10) @ [dec_digit n])"
    by (rule str_nat.simps)
  show ?case
  proof (cases "m < 10")
    case m: True
    show ?thesis
    proof (cases "n < 10")
      case True
      with m "1.prems" sm sn have "dec_digit m = dec_digit n" by simp
      with m True show ?thesis by (simp add: dec_digit_eq_iff)
    next
      case False
      with m "1.prems" sm sn have "[dec_digit m] = str_nat (n div 10) @ [dec_digit n]" by simp
      then have "str_nat (n div 10) = []" by simp
      then show ?thesis by (simp add: str_nat_not_Nil)
    qed
  next
    case m: False
    show ?thesis
    proof (cases "n < 10")
      case True
      with m "1.prems" sm sn have "str_nat (m div 10) @ [dec_digit m] = [dec_digit n]" by simp
      then have "str_nat (m div 10) = []" by simp
      then show ?thesis by (simp add: str_nat_not_Nil)
    next
      case False
      with m "1.prems" sm sn
      have "str_nat (m div 10) @ [dec_digit m] = str_nat (n div 10) @ [dec_digit n]" by simp
      then have "str_nat (m div 10) = str_nat (n div 10)" and "dec_digit m = dec_digit n"
        by simp_all
      with m "1.IH" have "m div 10 = n div 10" and "m mod 10 = n mod 10"
        by (simp_all add: dec_digit_eq_iff)
      then show ?thesis by (metis div_mult_mod_eq)
    qed
  qed
qed

lemma str_int_inj: "str_int i = str_int j \<Longrightarrow> i = j"
proof -
  assume eq: "str_int i = str_int j"
  have neg: False if "a < 0" "\<not> b < 0" "str_int a = str_int b" for a b
  proof -
    from that have "CHR ''-'' # str_nat (nat (- a)) = str_nat (nat b)"
      by (simp add: str_int_def)
    then have "hd (str_nat (nat b)) = CHR ''-''" by (metis list.sel(1))
    then show False by (simp add: hd_str_nat)
  qed
  show ?thesis
  proof (cases "i < 0"; cases "j < 0")
    assume "i < 0" "j < 0"
    with eq have "nat (- i) = nat (- j)" by (simp add: str_int_def str_nat_inj)
    with \<open>i < 0\<close> \<open>j < 0\<close> show ?thesis by simp
  next
    assume "i < 0" "\<not> j < 0"
    with eq neg show ?thesis by blast
  next
    assume "\<not> i < 0" "j < 0"
    with eq neg [of j i] show ?thesis by simp
  next
    assume "\<not> i < 0" "\<not> j < 0"
    with eq have "nat i = nat j" by (simp add: str_int_def str_nat_inj)
    with \<open>\<not> i < 0\<close> \<open>\<not> j < 0\<close> show ?thesis by simp
  qed
qed

lemma str_int_values:
  "str_int 1 = ''1''" "str_int 224 = ''224''" "str_int 256 = ''256''"
  "str_int 384 = ''384''" "str_int 512 = ''512''" "str_int 42 = ''42''"
  by (simp_all add: str_int_def str_nat.simps dec_digit_def)

lemma str_int_eq_iff:
  "str_int i = ''1'' \<longleftrightarrow> i = 1" "str_int i = ''224'' \<longleftrightarrow> i = 224"
  "str_int i = ''256'' \<longleftrightarrow> i = 256" "str_int i = ''384'' \<longleftrightarrow> i = 384"
  "str_int i = ''512'' \<longleftrightarrow> i = 512"
  using str_int_inj [of i 1] str_int_inj [of i 224] str_int_inj [of i 256]
    str_int_inj [of i 384] str_int_inj [of i 512]
  by (auto simp: str_int_values)

lemma map_of_hashlib_sha:
  "map_of hashlib_sha (''sha'' @ str_int i) =
     (if i = 1 then Some sha1 else if i = 224 then Some sha224 else if i = 256 then Some sha256
      else if i = 384 then Some sha384 else if i = 512 then Some sha512 else None)"
  by (simp add: hashlib_sha_def str_int_eq_iff)

lemma str_nat_digits: "set (str_nat n) \<subseteq> set ''0123456789''"
proof (induction n rule: str_nat.induct)
  case (1 n)
  have d: "dec_digit n \<in> set ''0123456789''"
    unfolding dec_digit_def by (rule nth_mem) simp
  show ?case
  proof (cases "n < 10")
    case True
    with d show ?thesis by (subst str_nat.simps) simp
  next
    case False
    with d "1.IH" show ?thesis by (subst str_nat.simps) simp
  qed
qed

lemma sha_name_not_other: "''sha'' @ str_int i \<notin> set hashlib_other_names"
proof -
  have u: "CHR ''_'' \<notin> set (str_int i)" and k: "CHR ''k'' \<notin> set (str_int i)"
    using str_nat_digits [of "nat i"] str_nat_digits [of "nat (- i)"]
    by (auto simp: str_int_def)
  show ?thesis
  proof
    assume "''sha'' @ str_int i \<in> set hashlib_other_names"
    then consider "str_int i = ''3_224''" | "str_int i = ''3_256''" | "str_int i = ''3_384''"
      | "str_int i = ''3_512''" | "str_int i = ''ke_128''" | "str_int i = ''ke_256''"
      by (auto simp: hashlib_other_names_def)
    then show False using u k by cases auto
  qed
qed

subsection \<open>Digests\<close>

lemma length_be_bytes: "length (be_bytes n k) = n"
  by (simp add: be_bytes_def)

lemma length_sha1: "length (sha1 m) = 20"
  by (simp add: sha1_def length_be_bytes split: prod.splits)

lemma length_sha2_words: "length (sha2_words s) = 8"
  by (simp add: sha2_words_def split: prod.splits)

lemma length_concat_be_bytes: "length (concat (map (\<lambda>x. be_bytes n (f x)) xs)) = n * length xs"
  by (induction xs) (simp_all add: length_be_bytes)

lemma length_sha2_32_digest: "n \<le> 8 \<Longrightarrow> length (sha2_32_digest init n m) = 4 * n"
  by (simp add: sha2_32_digest_def length_concat_be_bytes length_sha2_words)

lemma length_sha2_64_digest: "n \<le> 8 \<Longrightarrow> length (sha2_64_digest init n m) = 8 * n"
  by (simp add: sha2_64_digest_def length_concat_be_bytes length_sha2_words)

lemma length_sha2:
  "length (sha224 m) = 28" "length (sha256 m) = 32"
  "length (sha384 m) = 48" "length (sha512 m) = 64"
  by (simp_all add: sha224_def sha256_def sha384_def sha512_def
      length_sha2_32_digest length_sha2_64_digest)

lemma length_hexdigest: "length (hexdigest d) = 2 * length d"
  by (induction d) (simp_all add: hexdigest_def)

lemma hex_digit_mem: "hex_digit n \<in> set hex_digits"
  unfolding hex_digit_def by (rule nth_mem) (simp add: hex_digits_def)

lemma set_hexdigest: "set (hexdigest d) \<subseteq> set hex_digits"
  by (induction d) (simp_all add: hexdigest_def hex_digit_mem)

lemma get_alogirthm_function_eq:
  "get_alogirthm_function i =
     (if i = 1 then Inr sha1 else if i = 224 then Inr sha224 else if i = 256 then Inr sha256
      else if i = 384 then Inr sha384 else if i = 512 then Inr sha512
      else Inl (AttributeError (''sha'' @ str_int i)))"
  unfolding get_alogirthm_function_def Let_def map_of_hashlib_sha by simp

lemma get_hashsum_supported:
  "get_hashsum 1 b = Inr (hexdigest (sha1 b))"
  "get_hashsum 224 b = Inr (hexdigest (sha224 b))"
  "get_hashsum 256 b = Inr (hexdigest (sha256 b))"
  "get_hashsum 384 b = Inr (hexdigest (sha384 b))"
  "get_hashsum 512 b = Inr (hexdigest (sha512 b))"
  by (simp_all add: get_hashsum_def get_alogirthm_function_eq)

lemma get_hashsum_unsupported:
  "a \<notin> {1, 224, 256, 384, 512} \<Longrightarrow>
     get_hashsum a b = Inl (AttributeError (''sha'' @ str_int a))"
  by (simp add: get_hashsum_def get_alogirthm_function_eq)

subsection \<open>Padding and blocks\<close>

text \<open>
  The padded message is a whole number of blocks, and every block is full: the words that
  the schedules and rounds read with \<open>!\<close> are there.
\<close>

lemma pad_zeros:
  assumes "(r::nat) < b" and "c \<le> b" and "0 < c"
  shows "\<exists>j. r + c + (2 * b - c - r) mod b = j * b"
proof (cases "r + c \<le> b")
  case True
  have "2 * b - c - r = (b - c - r) + b" using True assms by simp
  then have "(2 * b - c - r) mod b = (b - c - r) mod b" by (simp only: mod_add_self2)
  also have "\<dots> = b - c - r"
    using assms by (intro mod_less) simp
  finally have "r + c + (2 * b - c - r) mod b = 1 * b" using True by simp
  then show ?thesis by blast
next
  case False
  with assms have "2 * b - c - r < b" by simp
  then have "(2 * b - c - r) mod b = 2 * b - c - r" by (rule mod_less)
  with assms have "r + c + (2 * b - c - r) mod b = 2 * b" by simp
  then show ?thesis by blast
qed

lemma length_sha_pad:
  assumes "0 < blk" and "Suc lenb \<le> blk"
  shows "length (sha_pad blk lenb m) mod blk = 0"
proof -
  from assms have "length m mod blk < blk" by simp
  from pad_zeros [OF this assms(2)] obtain j where
    j: "length m mod blk + Suc lenb + (2 * blk - Suc lenb - length m mod blk) mod blk = j * blk"
    by auto
  have "length (sha_pad blk lenb m) =
      length m + Suc lenb + (2 * blk - Suc lenb - length m mod blk) mod blk"
    by (simp add: sha_pad_def length_be_bytes)
  also have "\<dots> = blk * (length m div blk)
      + (length m mod blk + Suc lenb + (2 * blk - Suc lenb - length m mod blk) mod blk)"
    by (simp only: add.assoc [symmetric] mult_div_mod_eq)
  also have "\<dots> = blk * (length m div blk) + j * blk" by (simp only: j)
  finally show ?thesis by simp
qed

lemma chunks_full:
  "0 < n \<Longrightarrow> n dvd length xs \<Longrightarrow> c \<in> set (chunks n xs) \<Longrightarrow> length c = n"
proof (induction n xs rule: chunks.induct)
  case (1 n xs)
  show ?case
  proof (cases "xs = []")
    case True
    with "1.prems" show ?thesis by (simp add: chunks.simps [of n "[]"])
  next
    case False
    with "1.prems"(1,2) have len: "n \<le> length xs"
      by (simp add: dvd_imp_le)
    from "1.prems"(2) len have d: "n dvd length (drop n xs)"
      by (simp add: dvd_diff_nat)
    from False "1.prems"(1,3) have "c = take n xs \<or> c \<in> set (chunks n (drop n xs))"
      by (subst (asm) chunks.simps) simp
    then show ?thesis
    proof
      assume "c = take n xs"
      with len show ?thesis by simp
    next
      assume "c \<in> set (chunks n (drop n xs))"
      with "1.IH" False "1.prems"(1) d show ?thesis by simp
    qed
  qed
qed

lemma sha_blocks_full:
  "c \<in> set (chunks 64 (sha_pad 64 8 m)) \<Longrightarrow> length c = 64"
  "c \<in> set (chunks 128 (sha_pad 128 16 m)) \<Longrightarrow> length c = 128"
  using length_sha_pad [of 64 8 m] length_sha_pad [of 128 16 m]
    chunks_full [of 64 "sha_pad 64 8 m" c] chunks_full [of 128 "sha_pad 128 16 m" c]
  by (simp_all add: dvd_eq_mod_eq_0)

subsection \<open>Requests\<close>







subsection \<open>The default certificate bundle\<close>






lemma main_reports:
  "main_fetch w a = (tr, Inr b) \<Longrightarrow> get_hashsum (algorithm_version a) b = Inr X \<Longrightarrow>
     main w a = (tr, Inr (main_report X (hashsum a)))"
  by (simp add: main_def io_bind_def io_lift_def io_pure_def)

lemma io_bind_Inl: "snd m = Inl e \<Longrightarrow> io_bind m f = (fst m, Inl e)"
  by (cases m) (simp add: io_bind_def)








subsection \<open>Which events \<^verbatim>\<open>main\<close> causes\<close>

lemma py_repr_abc_digest:
  "py_repr ''a9993e364706816aba3e25717850c26c9cd0d89d'' =
     [CHR 0x27] @ ''a9993e364706816aba3e25717850c26c9cd0d89d'' @ [CHR 0x27]"
  by (simp add: py_repr_def Let_def repr_char_def py_printable_def)






section \<open>Properties\<close>

text \<open>
  C1. For every computed digest \<open>X\<close>: with no expected digest the report returns exit
  code 0; with the expected digest equal to \<open>X\<close> (the same string, compared as given) it
  prints True and returns 0; with any expected digest \<open>Y\<close> different from \<open>X\<close> it prints
  False and returns 1.
\<close>

theorem main_report_exit_codes:
  "snd (main_report X None) = 0
   \<and> main_report X (Some X) = (''True'' @ newline, 0)
   \<and> (Y \<noteq> X \<longrightarrow> main_report X (Some Y) = (''False'' @ newline, 1))"
  by (simp add: main_report_def print_def str_bool_def)

theorem main_report_exit_codes_witness:
  "snd (main_report ''ab12'' None) = 0
   \<and> main_report ''ab12'' (Some ''ab12'') = (''True'' @ newline, 0)
   \<and> ''AB12'' \<noteq> ''ab12''
   \<and> main_report ''ab12'' (Some ''AB12'') = (''False'' @ newline, 1)"
  using main_report_exit_codes [of "''ab12''" "''AB12''"] by simp

text \<open>
  C2, as amended. Hashing the octets of \<^verbatim>\<open>b"abc"\<close> with algorithm identifier 1 gives the
  digest \<^verbatim>\<open>a9993e364706816aba3e25717850c26c9cd0d89d\<close>, of forty hexadecimal digits.
\<close>

theorem sha1_abc_digest:
  "abc = [0x61, 0x62, 0x63]
   \<and> get_hashsum 1 abc = Inr ''a9993e364706816aba3e25717850c26c9cd0d89d''"
  by (simp add: get_hashsum_supported hexdigest_sha1_abc abc_def [symmetric])

text \<open>
  The digest is not the string of thirty-nine digits \<^verbatim>\<open>a9993e364706816aba3e25717850c26c9cd0d89\<close>,
  which lacks the last digit.
\<close>

theorem sha1_abc_digest_39_counterexample:
  "get_hashsum 1 [0x61, 0x62, 0x63] \<noteq> Inr ''a9993e364706816aba3e25717850c26c9cd0d89''"
  by (simp add: get_hashsum_supported hexdigest_sha1_abc abc_def [symmetric])

text \<open>
  C3. With no expected digest the program exits with code 0, and the line that it writes
  is \<^verbatim>\<open>Target hassum is '<hex>'\<close>: the word is spelled \<^verbatim>\<open>hassum\<close> in the message of line
  120, where every other name of the program has \<^verbatim>\<open>hashsum\<close>.  Here the program runs on a
  file that holds \<^verbatim>\<open>b"abc"\<close>.
\<close>

theorem main_prints_hassum:
  "main example_world (example_args ''abc.txt'') =
     ([OpenRead ''abc.txt''],
      Inr (''Target hassum is '' @ [CHR 0x27] @ ''a9993e364706816aba3e25717850c26c9cd0d89d''
             @ [CHR 0x27] @ newline, 0))
   \<and> snd (main example_world (example_args ''abc.txt'')) \<noteq>
       Inr (''Target hashsum is '' @ [CHR 0x27] @ ''a9993e364706816aba3e25717850c26c9cd0d89d''
              @ [CHR 0x27] @ newline, 0)"
proof -
  have f: "main_fetch example_world (example_args ''abc.txt'') = ([OpenRead ''abc.txt''], Inr abc)"
    by (simp add: main_fetch_def example_args_def startswith_def example_world_def
        read_file_content)
  have "main example_world (example_args ''abc.txt'') =
     ([OpenRead ''abc.txt''],
      Inr (''Target hassum is '' @ [CHR 0x27] @ ''a9993e364706816aba3e25717850c26c9cd0d89d''
             @ [CHR 0x27] @ newline, 0))"
    unfolding main_def f
    by (simp add: io_bind_def io_lift_def io_pure_def example_args_def get_hashsum_supported
        hexdigest_sha1_abc main_report_def print_def py_repr_abc_digest)
  then show ?thesis by simp
qed







text \<open>
  C7. For an algorithm identifier other than 1, 224, 256, 384 and 512 the digest
  computation ends with \<^verbatim>\<open>AttributeError\<close> for the name \<^verbatim>\<open>sha<identifier>\<close>; it returns a
  digest exactly for those five identifiers.
\<close>

theorem get_hashsum_unsupported_algorithm:
  "(a \<notin> {1, 224, 256, 384, 512} \<longrightarrow>
      get_hashsum a b = Inl (AttributeError (''sha'' @ str_int a)))
   \<and> ((\<exists>h. get_hashsum a b = Inr h) \<longleftrightarrow> a \<in> {1, 224, 256, 384, 512})"
proof (cases "a \<in> {1, 224, 256, 384, 512}")
  case True
  then show ?thesis by (auto simp: get_hashsum_supported)
next
  case False
  then show ?thesis by (simp add: get_hashsum_unsupported)
qed

theorem get_hashsum_unsupported_algorithm_witness:
  "(42::int) \<notin> {1, 224, 256, 384, 512}
   \<and> get_hashsum 42 [0x61, 0x62, 0x63] = Inl (AttributeError ''sha42'')
   \<and> \<not> (\<exists>h. get_hashsum 42 [0x61, 0x62, 0x63] = Inr h)"
  using get_hashsum_unsupported_algorithm [of 42 "[0x61, 0x62, 0x63]"]
  by (simp add: str_int_values)

text \<open>
  C8. For every sequence of octets \<open>B\<close> the digest is a string of lower-case hexadecimal
  digits: 40 of them for identifier 1, 64 for 256 and 128 for 512.
\<close>

theorem get_hashsum_digest_length:
  "get_hashsum 1 B = Inr (hexdigest (sha1 B))
   \<and> length (hexdigest (sha1 B)) = 40
   \<and> set (hexdigest (sha1 B)) \<subseteq> set ''0123456789abcdef''
   \<and> get_hashsum 256 B = Inr (hexdigest (sha256 B))
   \<and> length (hexdigest (sha256 B)) = 64
   \<and> set (hexdigest (sha256 B)) \<subseteq> set ''0123456789abcdef''
   \<and> get_hashsum 512 B = Inr (hexdigest (sha512 B))
   \<and> length (hexdigest (sha512 B)) = 128
   \<and> set (hexdigest (sha512 B)) \<subseteq> set ''0123456789abcdef''"
  using set_hexdigest [of "sha1 B"] set_hexdigest [of "sha256 B"] set_hexdigest [of "sha512 B"]
  by (simp add: get_hashsum_supported length_hexdigest length_sha1 length_sha2 hex_digits_def)





end
